theory Spec2Isabelle
  imports Complex_Main "HOL-Library.AList" "HOL-Library.Sublist"
begin

section \<open>Data model\<close>

text \<open>
  The values that \<^verbatim>\<open>json.loads\<close> produces: \<^verbatim>\<open>None\<close>, \<^verbatim>\<open>bool\<close>, \<^verbatim>\<open>int\<close> (unbounded),
  \<^verbatim>\<open>float\<close>, \<^verbatim>\<open>str\<close>, \<^verbatim>\<open>list\<close> and \<^verbatim>\<open>dict\<close>. A dict is an association list in insertion
  order. The type \<open>'f\<close> of floats is a parameter: the float arithmetic of the host
  language is passed to the functions as a record of operations, so that nothing proved
  below depends on how floats round.
\<close>

datatype 'f json =
    JNull
  | JBool bool
  | JInt int
  | JFloat 'f
  | JStr string
  | JList "'f json list"
  | JDict "(string \<times> 'f json) list"

record 'f float_ops =
  f_one :: 'f
  f_mod :: "'f \<Rightarrow> int \<Rightarrow> 'f"
  f_dist :: "int \<Rightarrow> 'f \<Rightarrow> 'f"
  f_lt :: "'f \<Rightarrow> 'f \<Rightarrow> bool"
  f_mul :: "'f \<Rightarrow> int \<Rightarrow> 'f"
  f_abs :: "'f \<Rightarrow> 'f"
  f_eq :: "'f \<Rightarrow> 'f \<Rightarrow> bool"
  f_eq_int :: "'f \<Rightarrow> int \<Rightarrow> bool"
  f_str :: "'f \<Rightarrow> string"

text \<open>
  The fields stand for \<^verbatim>\<open>1.0\<close>, \<^verbatim>\<open>x % m\<close>, \<^verbatim>\<open>abs(i - x)\<close>, \<^verbatim>\<open>x < y\<close>, \<^verbatim>\<open>x * i\<close>,
  \<^verbatim>\<open>abs(x)\<close>, \<^verbatim>\<open>x == y\<close>, \<^verbatim>\<open>x == i\<close> and \<^verbatim>\<open>str(x)\<close>. The instance below computes
  them exactly on rationals; it serves to evaluate the functions on concrete documents.
\<close>

definition exact_ops :: "rat float_ops" where
  "exact_ops = \<lparr> f_one = 1,
                 f_mod = (\<lambda>x m. x - of_int m * of_int \<lfloor>x / of_int m\<rfloor>),
                 f_dist = (\<lambda>i x. \<bar>of_int i - x\<bar>),
                 f_lt = (\<lambda>x y. x < y),
                 f_mul = (\<lambda>x i. x * of_int i),
                 f_abs = (\<lambda>x. \<bar>x\<bar>),
                 f_eq = (\<lambda>x y. x = y),
                 f_eq_int = (\<lambda>x i. x = of_int i),
                 f_str = (\<lambda>x. ''float'') \<rparr>"

text \<open>The exceptions that the functions below can raise.\<close>

datatype py_error = TypeError | AttributeError | KeyError | DecoderFault

text \<open>
  An entry of the \<^verbatim>\<open>issues\<close> list. The source formats each entry as a string; the model
  keeps the message kind and the interpolated values.
\<close>

datatype 'f issue =
    MissingLaser
  | AddedComponents
  | FixedID "'f json" string
  | RemovedAlpha string
  | FixedRotation string "'f json" int
  | ConvertedFm string
  | RenamedType string
  | DefaultOnValidation
  | ErrorOccurred py_error

section \<open>Python primitives on JSON values\<close>

fun contains :: "string \<Rightarrow> string \<Rightarrow> bool" where
  "contains s [] = (s = [])"
| "contains s (c # cs) = (prefix s (c # cs) \<or> contains s cs)"

text \<open>\<^verbatim>\<open>key in v\<close> for a string key: dict keys, list elements, substrings.\<close>

fun py_in :: "string \<Rightarrow> 'f json \<Rightarrow> py_error + bool" where
  "py_in k (JDict kvs) = Inr (map_of kvs k \<noteq> None)"
| "py_in k (JList xs) = Inr (JStr k \<in> set xs)"
| "py_in k (JStr s) = Inr (contains k s)"
| "py_in k _ = Inl TypeError"

text \<open>\<^verbatim>\<open>v[key]\<close>, \<^verbatim>\<open>v[key] = x\<close> and \<^verbatim>\<open>del v[key]\<close> for a string key.\<close>

fun py_getitem :: "string \<Rightarrow> 'f json \<Rightarrow> py_error + 'f json" where
  "py_getitem k (JDict kvs) = (case map_of kvs k of None \<Rightarrow> Inl KeyError | Some v \<Rightarrow> Inr v)"
| "py_getitem k _ = Inl TypeError"

fun py_setitem :: "string \<Rightarrow> 'f json \<Rightarrow> 'f json \<Rightarrow> py_error + 'f json" where
  "py_setitem k x (JDict kvs) = Inr (JDict (AList.update k x kvs))"
| "py_setitem k x _ = Inl TypeError"

fun py_delitem :: "string \<Rightarrow> 'f json \<Rightarrow> py_error + 'f json" where
  "py_delitem k (JDict kvs) =
     (if map_of kvs k = None then Inl KeyError else Inr (JDict (AList.delete k kvs)))"
| "py_delitem k _ = Inl TypeError"

text \<open>Iteration: a list yields its elements, a dict its keys, a string its characters.\<close>

fun py_iter :: "'f json \<Rightarrow> py_error + 'f json list" where
  "py_iter (JList xs) = Inr xs"
| "py_iter (JDict kvs) = Inr (map (\<lambda>kv. JStr (fst kv)) kvs)"
| "py_iter (JStr s) = Inr (map (\<lambda>c. JStr [c]) s)"
| "py_iter _ = Inl TypeError"

definition err_bind :: "'e + 'a \<Rightarrow> ('a \<Rightarrow> 'e + 'b) \<Rightarrow> 'e + 'b" where
  "err_bind m f = (case m of Inl e \<Rightarrow> Inl e | Inr x \<Rightarrow> f x)"

subsection \<open>Decimal rendering\<close>

definition digit_char :: "nat \<Rightarrow> char" where
  "digit_char d = char_of (48 + d)"

fun str_of_nat :: "nat \<Rightarrow> string" where
  "str_of_nat n = (if n < 10 then [digit_char n] else str_of_nat (n div 10) @ [digit_char (n mod 10)])"

declare str_of_nat.simps [simp del]

definition str_of_int :: "int \<Rightarrow> string" where
  "str_of_int i = (if i < 0 then CHR ''-'' # str_of_nat (nat (- i)) else str_of_nat (nat i))"

text \<open>\<^verbatim>\<open>str(v)\<close> for the hashable values.\<close>

fun py_str :: "'f float_ops \<Rightarrow> 'f json \<Rightarrow> string" where
  "py_str ops JNull = ''None''"
| "py_str ops (JBool b) = (if b then ''True'' else ''False'')"
| "py_str ops (JInt i) = str_of_int i"
| "py_str ops (JFloat x) = f_str ops x"
| "py_str ops (JStr s) = s"
| "py_str ops _ = []"

subsection \<open>The dict \<^verbatim>\<open>type_counters\<close>\<close>

fun hashable :: "'f json \<Rightarrow> bool" where
  "hashable (JList _) = False"
| "hashable (JDict _) = False"
| "hashable _ = True"

text \<open>
  Equality of dict keys: \<^verbatim>\<open>True == 1 == 1.0\<close>, so booleans, integers and floats can
  name the same key.
\<close>

fun py_key_eq :: "'f float_ops \<Rightarrow> 'f json \<Rightarrow> 'f json \<Rightarrow> bool" where
  "py_key_eq ops JNull JNull = True"
| "py_key_eq ops (JStr s) (JStr t) = (s = t)"
| "py_key_eq ops (JBool a) (JBool b) = (a = b)"
| "py_key_eq ops (JBool a) (JInt j) = ((if a then 1 else 0) = j)"
| "py_key_eq ops (JInt i) (JBool b) = (i = (if b then 1 else 0))"
| "py_key_eq ops (JInt i) (JInt j) = (i = j)"
| "py_key_eq ops (JBool a) (JFloat y) = f_eq_int ops y (if a then 1 else 0)"
| "py_key_eq ops (JInt i) (JFloat y) = f_eq_int ops y i"
| "py_key_eq ops (JFloat x) (JBool b) = f_eq_int ops x (if b then 1 else 0)"
| "py_key_eq ops (JFloat x) (JInt j) = f_eq_int ops x j"
| "py_key_eq ops (JFloat x) (JFloat y) = f_eq ops x y"
| "py_key_eq ops _ _ = False"

type_synonym 'f counters = "('f json \<times> nat) list"

fun counter_get :: "'f float_ops \<Rightarrow> 'f counters \<Rightarrow> 'f json \<Rightarrow> nat" where
  "counter_get ops [] k = 0"
| "counter_get ops ((k', m) # tc) k = (if py_key_eq ops k' k then m else counter_get ops tc k)"

fun counter_set :: "'f float_ops \<Rightarrow> 'f counters \<Rightarrow> 'f json \<Rightarrow> nat \<Rightarrow> 'f counters" where
  "counter_set ops [] k n = [(k, n)]"
| "counter_set ops ((k', m) # tc) k n =
     (if py_key_eq ops k' k then (k', n) # tc else (k', m) # counter_set ops tc k n)"

section \<open>\<^verbatim>\<open>validate_and_fix_json\<close>\<close>

subsection \<open>Rotation\<close>

definition valid_rotations :: "int list" where
  "valid_rotations = [0, 90, 180, 270]"

text \<open>
  \<^verbatim>\<open>min(xs, key=...)\<close>: the first element whose key is not above any earlier one; a later
  element replaces the best one only when its key is strictly smaller.
\<close>

fun min_by :: "('k \<Rightarrow> 'k \<Rightarrow> bool) \<Rightarrow> ('a \<Rightarrow> 'k) \<Rightarrow> 'a \<Rightarrow> 'a list \<Rightarrow> 'a" where
  "min_by lt key best [] = best"
| "min_by lt key best (x # xs) = min_by lt key (if lt (key x) (key best) then x else best) xs"

definition closest_int :: "int \<Rightarrow> int" where
  "closest_int rotation =
     (let normalized = rotation mod 360
      in min_by (\<lambda>a b. a < b) (\<lambda>x. \<bar>x - normalized\<bar>) (hd valid_rotations) (tl valid_rotations))"

definition closest_float :: "'f float_ops \<Rightarrow> 'f \<Rightarrow> int" where
  "closest_float ops rotation =
     (let normalized = f_mod ops rotation 360
      in min_by (f_lt ops) (\<lambda>x. f_dist ops x normalized) (hd valid_rotations) (tl valid_rotations))"

text \<open>
  The new value of \<^verbatim>\<open>component_rotated\<close>, if the source assigns one: lines 235 to 240.
  \<^verbatim>\<open>isinstance(rotation, int)\<close> holds of booleans too.
\<close>

fun snap_rotation :: "'f float_ops \<Rightarrow> 'f json \<Rightarrow> int option" where
  "snap_rotation ops (JInt i) = (if i \<in> set valid_rotations then None else Some (closest_int i))"
| "snap_rotation ops (JBool b) =
     (if (if b then 1 else 0) \<in> set valid_rotations then None
      else Some (closest_int (if b then 1 else 0)))"
| "snap_rotation ops (JFloat x) = Some (closest_float ops x)"
| "snap_rotation ops _ = None"

definition fix_rotation ::
  "'f float_ops \<Rightarrow> string \<Rightarrow> 'f json \<Rightarrow> py_error + ('f json \<times> 'f issue list)" where
  "fix_rotation ops cid params =
     err_bind (py_in ''component_rotated'' params) (\<lambda>present.
       if present then
         err_bind (py_getitem ''component_rotated'' params) (\<lambda>rotation.
           case snap_rotation ops rotation of
             None \<Rightarrow> Inr (params, [])
           | Some closest \<Rightarrow>
               err_bind (py_setitem ''component_rotated'' (JInt closest) params) (\<lambda>params'.
                 Inr (params', [FixedRotation cid rotation closest])))
       else Inr (params, []))"

subsection \<open>Removed and migrated keys\<close>

definition remove_alpha ::
  "string \<Rightarrow> 'f json \<Rightarrow> py_error + ('f json \<times> 'f issue list)" where
  "remove_alpha cid params =
     err_bind (py_in ''alpha_deg'' params) (\<lambda>present.
       if present then
         err_bind (py_delitem ''alpha_deg'' params) (\<lambda>params'.
           Inr (params', [RemovedAlpha cid]))
       else Inr (params, []))"

text \<open>
  \<^verbatim>\<open>abs(f_m * 1_000_000)\<close>: a number gives a number; a string or a list is repeated and
  \<^verbatim>\<open>abs\<close> then raises; \<^verbatim>\<open>None\<close> and a dict cannot be multiplied.
\<close>

fun abs_times_million :: "'f float_ops \<Rightarrow> 'f json \<Rightarrow> py_error + 'f json" where
  "abs_times_million ops (JInt i) = Inr (JInt \<bar>i * 1000000\<bar>)"
| "abs_times_million ops (JBool b) = Inr (JInt \<bar>(if b then 1 else 0) * 1000000\<bar>)"
| "abs_times_million ops (JFloat x) = Inr (JFloat (f_abs ops (f_mul ops x 1000000)))"
| "abs_times_million ops _ = Inl TypeError"

definition convert_f_m ::
  "'f float_ops \<Rightarrow> string \<Rightarrow> 'f json \<Rightarrow> py_error + ('f json \<times> 'f issue list)" where
  "convert_f_m ops cid params =
     err_bind (py_in ''f_m'' params) (\<lambda>present.
       if present then
         err_bind (py_getitem ''f_m'' params) (\<lambda>f_m.
         err_bind (abs_times_million ops f_m) (\<lambda>f_um.
         err_bind (py_setitem ''f_um'' f_um params) (\<lambda>params1.
         err_bind (py_delitem ''f_m'' params1) (\<lambda>params2.
           Inr (params2, [ConvertedFm cid])))))
       else Inr (params, []))"

definition rename_type ::
  "string \<Rightarrow> 'f json \<Rightarrow> py_error + ('f json \<times> 'f issue list)" where
  "rename_type cid params =
     err_bind (py_in ''type'' params) (\<lambda>has_type.
       if has_type then
         err_bind (py_in ''lensType'' params) (\<lambda>has_lens_type.
           if \<not> has_lens_type then
             err_bind (py_getitem ''type'' params) (\<lambda>t.
             err_bind (py_setitem ''lensType'' t params) (\<lambda>params1.
             err_bind (py_delitem ''type'' params1) (\<lambda>params2.
               Inr (params2, [RenamedType cid]))))
           else Inr (params, []))
       else Inr (params, []))"

text \<open>Lines 228 to 254: what the loop body does to \<^verbatim>\<open>component["params"]\<close>.\<close>

definition fix_params ::
  "'f float_ops \<Rightarrow> 'f json \<Rightarrow> string \<Rightarrow> 'f json \<Rightarrow> py_error + ('f json \<times> 'f issue list)" where
  "fix_params ops comp_type cid params =
     err_bind (remove_alpha cid params) (\<lambda>(p1, i1).
     err_bind (fix_rotation ops cid p1) (\<lambda>(p2, i2).
       if comp_type = JStr ''lens'' then
         err_bind (convert_f_m ops cid p2) (\<lambda>(p3, i3).
         err_bind (rename_type cid p3) (\<lambda>(p4, i4).
           Inr (p4, i1 @ i2 @ i3 @ i4)))
       else Inr (p2, i1 @ i2)))"

subsection \<open>The loop over the components\<close>

definition comp_type_of :: "(string \<times> 'f json) list \<Rightarrow> 'f json" where
  "comp_type_of kvs = (case map_of kvs ''type'' of Some t \<Rightarrow> t | None \<Rightarrow> JStr ''unknown'')"

definition expected_id :: "'f float_ops \<Rightarrow> 'f json \<Rightarrow> nat \<Rightarrow> string" where
  "expected_id ops comp_type n = py_str ops comp_type @ ''_'' @ str_of_nat n"

text \<open>
  One pass of the loop body, lines 215 to 254. A component that is not a dict has no
  \<^verbatim>\<open>get\<close>; a type that is a list or a dict cannot be a key of \<^verbatim>\<open>type_counters\<close>.
\<close>

fun fix_component ::
  "'f float_ops \<Rightarrow> 'f counters \<Rightarrow> 'f json \<Rightarrow> py_error + ('f json \<times> 'f issue list \<times> 'f counters)" where
  "fix_component ops tc (JDict kvs) =
     (let comp_type = comp_type_of kvs in
      if \<not> hashable comp_type then Inl TypeError
      else
        let n = counter_get ops tc comp_type + 1;
            tc' = counter_set ops tc comp_type n;
            eid = expected_id ops comp_type n;
            old_id = (case map_of kvs ''id'' of Some v \<Rightarrow> v | None \<Rightarrow> JStr ''none'');
            kvs1 = (if map_of kvs ''id'' \<noteq> Some (JStr eid) then AList.update ''id'' (JStr eid) kvs else kvs);
            i0 = (if map_of kvs ''id'' \<noteq> Some (JStr eid) then [FixedID old_id eid] else [])
        in case map_of kvs1 ''params'' of
             None \<Rightarrow> Inr (JDict kvs1, i0, tc')
           | Some params \<Rightarrow>
               err_bind (fix_params ops comp_type eid params) (\<lambda>(params', ip).
                 Inr (JDict (AList.update ''params'' params' kvs1), i0 @ ip, tc')))"
| "fix_component ops tc _ = Inl AttributeError"

fun fix_components ::
  "'f float_ops \<Rightarrow> 'f counters \<Rightarrow> 'f json list \<Rightarrow>
     py_error + ('f json list \<times> 'f issue list \<times> 'f counters)" where
  "fix_components ops tc [] = Inr ([], [], tc)"
| "fix_components ops tc (c # cs) =
     err_bind (fix_component ops tc c) (\<lambda>(c', i, tc').
     err_bind (fix_components ops tc' cs) (\<lambda>(cs', is, tc'').
       Inr (c' # cs', i @ is, tc'')))"

text \<open>
  The result is the exception raised, or the pair the source returns: \<^verbatim>\<open>None\<close> or the
  fixed document, and the issues.
\<close>

definition validate_and_fix_json ::
  "'f float_ops \<Rightarrow> 'f json \<Rightarrow> py_error + ('f json option \<times> 'f issue list)" where
  "validate_and_fix_json ops json_data =
     err_bind (py_in ''laser'' json_data) (\<lambda>has_laser.
       if \<not> has_laser then Inr (None, [MissingLaser])
       else
         err_bind (py_in ''components'' json_data) (\<lambda>has_components.
         err_bind (if has_components then Inr (json_data, [])
                   else err_bind (py_setitem ''components'' (JList []) json_data) (\<lambda>d. Inr (d, [AddedComponents])))
           (\<lambda>(d1, i0).
              case d1 of
                JDict kvs \<Rightarrow>
                  (let cv = (case map_of kvs ''components'' of Some v \<Rightarrow> v | None \<Rightarrow> JList []) in
                   err_bind (py_iter cv) (\<lambda>items.
                   err_bind (fix_components ops [] items) (\<lambda>(items', is, tc).
                     Inr (Some (JDict (case cv of JList _ \<Rightarrow> AList.update ''components'' (JList items') kvs
                                          | _ \<Rightarrow> kvs)),
                          i0 @ is))))
              | _ \<Rightarrow> Inl AttributeError)))"

section \<open>\<^verbatim>\<open>extract_json\<close>\<close>

text \<open>
  \<^verbatim>\<open>json.loads\<close> belongs to the standard library and is a parameter of the model: on a
  text it returns a value, raises \<^verbatim>\<open>JSONDecodeError\<close>, or raises something else (such as
  \<^verbatim>\<open>RecursionError\<close>).
\<close>

datatype 'f decoded = Decoded "'f json" | JSONDecodeError | OtherError

text \<open>
  A decoder given by the finite table of the texts it decodes; every other text raises
  \<^verbatim>\<open>JSONDecodeError\<close>. It instantiates the parameter on concrete texts.
\<close>

definition loads_table :: "(string \<times> 'f json) list \<Rightarrow> string \<Rightarrow> 'f decoded" where
  "loads_table tab s = (case map_of tab s of Some v \<Rightarrow> Decoded v | None \<Rightarrow> JSONDecodeError)"

text \<open>Whitespace, as \<^verbatim>\<open>\s\<close> and \<^verbatim>\<open>str.strip\<close> see it, on 8-bit characters.\<close>

definition is_space :: "char \<Rightarrow> bool" where
  "is_space c = (let n = (of_char c :: nat) in (9 \<le> n \<and> n \<le> 13) \<or> (28 \<le> n \<and> n \<le> 32) \<or> n = 133 \<or> n = 160)"

text \<open>\<^verbatim>\<open>re.sub(pat + r'\s*', '', text)\<close> for a literal, non-empty \<open>pat\<close>.\<close>

function re_sub_fence :: "string \<Rightarrow> string \<Rightarrow> string" where
  "re_sub_fence pat [] = []"
| "re_sub_fence pat (c # cs) =
     (if pat \<noteq> [] \<and> prefix pat (c # cs)
      then re_sub_fence pat (dropWhile is_space (drop (length pat) (c # cs)))
      else c # re_sub_fence pat cs)"
  by pat_completeness auto
termination
proof (relation "measure (\<lambda>(pat, s). length s)")
  show "wf (measure (\<lambda>(pat, s). length s))" by simp
next
  fix pat :: string and c :: char and cs :: string
  assume "pat \<noteq> [] \<and> prefix pat (c # cs)"
  then have "0 < length pat" by simp
  then have "length (drop (length pat) (c # cs)) < length (c # cs)" by simp
  moreover have "length (dropWhile is_space (drop (length pat) (c # cs)))
                   \<le> length (drop (length pat) (c # cs))"
    by (rule length_dropWhile_le)
  ultimately show "((pat, dropWhile is_space (drop (length pat) (c # cs))), (pat, c # cs))
                     \<in> measure (\<lambda>(pat, s). length s)"
    by simp
next
  fix pat :: string and c :: char and cs :: string
  show "((pat, cs), (pat, c # cs)) \<in> measure (\<lambda>(pat, s). length s)" by simp
qed

definition strip :: "string \<Rightarrow> string" where
  "strip s = rev (dropWhile is_space (rev (dropWhile is_space s)))"

text \<open>
  \<^verbatim>\<open>re.search(r'\{[\s\S]*\}', text)\<close>: from the first opening brace to the last closing
  brace after it.
\<close>

definition brace_match :: "string \<Rightarrow> string option" where
  "brace_match text =
     (case dropWhile (\<lambda>c. c \<noteq> CHR ''{'') text of
        [] \<Rightarrow> None
      | b # rest \<Rightarrow>
          (case dropWhile (\<lambda>c. c \<noteq> CHR ''}'') (rev rest) of
             [] \<Rightarrow> None
           | r \<Rightarrow> Some (b # rev r)))"

text \<open>\<^verbatim>\<open>text.find(c)\<close>, \<^verbatim>\<open>text.rfind(c)\<close> (\<open>None\<close> for -1) and \<^verbatim>\<open>text[start:end+1]\<close>.\<close>

definition py_find :: "char \<Rightarrow> string \<Rightarrow> nat option" where
  "py_find c text = (if c \<in> set text then Some (length (takeWhile (\<lambda>x. x \<noteq> c) text)) else None)"

definition py_rfind :: "char \<Rightarrow> string \<Rightarrow> nat option" where
  "py_rfind c text =
     (if c \<in> set text then Some (length text - 1 - length (takeWhile (\<lambda>x. x \<noteq> c) (rev text)))
      else None)"

definition slice_incl :: "string \<Rightarrow> nat \<Rightarrow> nat \<Rightarrow> string" where
  "slice_incl text start end = drop start (take (end + 1) text)"

definition default_json :: "'f float_ops \<Rightarrow> 'f json" where
  "default_json ops =
     JDict [(''laser'', JDict [(''id'', JStr ''laser''),
                               (''params'', JDict [(''P'', JFloat (f_one ops)),
                                                   (''wavelength_nm'', JInt 650),
                                                   (''maxtem'', JInt 1)])]),
            (''components'', JList [])]"

definition clean_text :: "string \<Rightarrow> string" where
  "clean_text text = strip (re_sub_fence ''```'' (re_sub_fence ''```json'' text))"

text \<open>Lines 175 to 197: the third attempt, whose \<^verbatim>\<open>except\<close> catches everything.\<close>

definition extract_last_resort :: "'f float_ops \<Rightarrow> (string \<Rightarrow> 'f decoded) \<Rightarrow> string \<Rightarrow> 'f json" where
  "extract_last_resort ops loads text =
     (case (py_find CHR ''{'' text, py_rfind CHR ''}'' text) of
        (Some start, Some end) \<Rightarrow>
          (case loads (slice_incl text start end) of
             Decoded v \<Rightarrow> v
           | _ \<Rightarrow> default_json ops)
      | _ \<Rightarrow> default_json ops)"

text \<open>
  The first two attempts catch \<^verbatim>\<open>JSONDecodeError\<close> only, so another exception of the
  decoder leaves the function.
\<close>

definition extract_json :: "'f float_ops \<Rightarrow> (string \<Rightarrow> 'f decoded) \<Rightarrow> string \<Rightarrow> py_error + 'f json" where
  "extract_json ops loads text0 =
     (let text = clean_text text0 in
      case loads text of
        Decoded v \<Rightarrow> Inr v
      | OtherError \<Rightarrow> Inl DecoderFault
      | JSONDecodeError \<Rightarrow>
          (case brace_match text of
             Some m \<Rightarrow>
               (case loads m of
                  Decoded v \<Rightarrow> Inr v
                | OtherError \<Rightarrow> Inl DecoderFault
                | JSONDecodeError \<Rightarrow> Inr (extract_last_resort ops loads text))
           | None \<Rightarrow> Inr (extract_last_resort ops loads text)))"

section \<open>\<^verbatim>\<open>generate_json\<close>\<close>

text \<open>
  The model starts at line 300, from the text of the reply (\<^verbatim>\<open>response_content\<close>); the
  call of the language model and \<^verbatim>\<open>save_json\<close> are outside it. The result is the pair of
  the entries \<^verbatim>\<open>"json"\<close> and \<^verbatim>\<open>"issues"\<close> of the returned dict. \<open>generate_json_try\<close>
  is the body of the \<^verbatim>\<open>try\<close>, \<open>generate_json\<close> adds the \<^verbatim>\<open>except Exception\<close>.
\<close>

definition generate_json_try ::
  "'f float_ops \<Rightarrow> (string \<Rightarrow> 'f decoded) \<Rightarrow> string \<Rightarrow> py_error + ('f json \<times> 'f issue list)" where
  "generate_json_try ops loads response_content =
     err_bind (extract_json ops loads response_content) (\<lambda>json_output.
     err_bind (validate_and_fix_json ops json_output) (\<lambda>(fixed_json, issues).
       case fixed_json of
         None \<Rightarrow> Inr (default_json ops, [DefaultOnValidation])
       | Some fixed \<Rightarrow> Inr (fixed, issues)))"

definition generate_json ::
  "'f float_ops \<Rightarrow> (string \<Rightarrow> 'f decoded) \<Rightarrow> string \<Rightarrow> 'f json \<times> 'f issue list" where
  "generate_json ops loads response_content =
     (case generate_json_try ops loads response_content of
        Inl e \<Rightarrow> (default_json ops, [ErrorOccurred e])
      | Inr r \<Rightarrow> r)"

section \<open>Reading a document\<close>

text \<open>The vocabulary of the statements below: a key of a dict, the components, a param.\<close>

definition field :: "string \<Rightarrow> 'f json \<Rightarrow> 'f json option" where
  "field k j = (case j of JDict kvs \<Rightarrow> map_of kvs k | _ \<Rightarrow> None)"

definition components_of :: "'f json \<Rightarrow> 'f json list" where
  "components_of d = (case field ''components'' d of Some (JList xs) \<Rightarrow> xs | _ \<Rightarrow> [])"

definition param :: "string \<Rightarrow> 'f json \<Rightarrow> 'f json option" where
  "param k c = (case field ''params'' c of Some p \<Rightarrow> field k p | None \<Rightarrow> None)"

definition kind_of :: "'f json \<Rightarrow> 'f json" where
  "kind_of c = (case field ''type'' c of Some t \<Rightarrow> t | None \<Rightarrow> JStr ''unknown'')"

text \<open>The values that do not support \<^verbatim>\<open>in\<close>: \<^verbatim>\<open>None\<close>, booleans and numbers.\<close>

fun is_scalar :: "'f json \<Rightarrow> bool" where
  "is_scalar JNull = True"
| "is_scalar (JBool _) = True"
| "is_scalar (JInt _) = True"
| "is_scalar (JFloat _) = True"
| "is_scalar _ = False"

text \<open>A dict of params on which no rule of the loop body fires.\<close>

definition params_fixed :: "'f float_ops \<Rightarrow> 'f json \<Rightarrow> (string \<times> 'f json) list \<Rightarrow> bool" where
  "params_fixed ops ct ps =
     (map_of ps ''alpha_deg'' = None
      \<and> (case map_of ps ''component_rotated'' of None \<Rightarrow> True | Some r \<Rightarrow> snap_rotation ops r = None)
      \<and> (ct \<noteq> JStr ''lens'' \<or>
           (map_of ps ''f_m'' = None \<and> (map_of ps ''type'' = None \<or> map_of ps ''lensType'' \<noteq> None))))"

definition after_rotation :: "'f float_ops \<Rightarrow> (string \<times> 'f json) list \<Rightarrow> (string \<times> 'f json) list" where
  "after_rotation ops ps =
     (case map_of ps ''component_rotated'' of
        None \<Rightarrow> ps
      | Some r \<Rightarrow> (case snap_rotation ops r of
                     None \<Rightarrow> ps
                   | Some c \<Rightarrow> AList.update ''component_rotated'' (JInt c) ps))"

definition after_f_m :: "'f float_ops \<Rightarrow> (string \<times> 'f json) list \<Rightarrow> (string \<times> 'f json) list" where
  "after_f_m ops ps =
     (case map_of ps ''f_m'' of
        None \<Rightarrow> ps
      | Some v \<Rightarrow> (case abs_times_million ops v of
                     Inl e \<Rightarrow> ps
                   | Inr u \<Rightarrow> AList.delete ''f_m'' (AList.update ''f_um'' u ps)))"

definition after_type :: "(string \<times> 'f json) list \<Rightarrow> (string \<times> 'f json) list" where
  "after_type ps =
     (case map_of ps ''type'' of
        None \<Rightarrow> ps
      | Some t \<Rightarrow> if map_of ps ''lensType'' = None
                  then AList.delete ''type'' (AList.update ''lensType'' t ps)
                  else ps)"

definition params_after ::
  "'f float_ops \<Rightarrow> 'f json \<Rightarrow> (string \<times> 'f json) list \<Rightarrow> (string \<times> 'f json) list" where
  "params_after ops ct ps =
     (if ct = JStr ''lens''
      then after_type (after_f_m ops (after_rotation ops (AList.delete ''alpha_deg'' ps)))
      else after_rotation ops (AList.delete ''alpha_deg'' ps))"

section \<open>Properties\<close>

subsection \<open>The text pipeline\<close>

lemma validate_scalar: "is_scalar v \<Longrightarrow> validate_and_fix_json ops v = Inl TypeError"
  by (cases v) (simp_all add: validate_and_fix_json_def err_bind_def)

lemma set_re_sub_fence: "set (re_sub_fence pat s) \<subseteq> set s"
proof (induction pat s rule: re_sub_fence.induct)
  case (1 pat)
  then show ?case by simp
next
  case (2 pat c cs)
  show ?case
  proof (cases "pat \<noteq> [] \<and> prefix pat (c # cs)")
    case True
    have "set (dropWhile is_space (drop (length pat) (c # cs))) \<subseteq> set (c # cs)"
      by (meson set_dropWhileD in_set_dropD subsetI)
    with True 2(1) show ?thesis by (simp del: drop_Suc_Cons)
  next
    case False
    with 2(2) show ?thesis by auto
  qed
qed

lemma set_strip: "set (strip s) \<subseteq> set s"
  unfolding strip_def by (auto dest!: set_dropWhileD)

lemma set_clean_text: "set (clean_text reply) \<subseteq> set reply"
  unfolding clean_text_def using set_strip set_re_sub_fence by (meson subset_trans)

lemma validate_default:
  "validate_and_fix_json ops (default_json ops) = Inr (Some (default_json ops), [])"
  by (simp add: validate_and_fix_json_def default_json_def err_bind_def)

lemma brace_match_None:
  assumes "CHR ''{'' \<notin> set t \<or> CHR ''}'' \<notin> set t"
  shows "brace_match t = None"
proof (cases "dropWhile (\<lambda>c. c \<noteq> CHR ''{'') t")
  case Nil
  show ?thesis unfolding brace_match_def Nil by simp
next
  case (Cons b rest)
  then have "b = CHR ''{''" using hd_dropWhile[of "\<lambda>c. c \<noteq> CHR ''{''" t] by auto
  moreover have "b \<in> set t" using Cons by (metis list.set_intros(1) set_dropWhileD)
  ultimately have "CHR ''}'' \<notin> set t" using assms by auto
  moreover have "set rest \<subseteq> set t" using Cons by (metis set_dropWhileD list.set_intros(2) subsetI)
  ultimately have "CHR ''}'' \<notin> set (rev rest)" by auto
  then have d: "dropWhile (\<lambda>c. c \<noteq> CHR ''}'') (rev rest) = []" by (auto simp del: set_rev)
  show ?thesis unfolding brace_match_def Cons by (simp only: d list.case)
qed

lemma last_resort_default:
  "CHR ''{'' \<notin> set t \<or> CHR ''}'' \<notin> set t \<Longrightarrow> extract_last_resort ops loads t = default_json ops"
  by (auto simp: extract_last_resort_def py_find_def py_rfind_def)

lemma clean_5: "clean_text ''5'' = ''5''"
  by (simp add: clean_text_def strip_def is_space_def)

lemma clean_hello: "clean_text ''hello world'' = ''hello world''"
  by (simp add: clean_text_def strip_def is_space_def)

text \<open>
  Claim C10. When the direct decode of the reply yields \<^verbatim>\<open>None\<close>, a boolean or a number,
  \<^verbatim>\<open>validate_and_fix_json\<close> returns neither a fixed document nor the missing-root result:
  the test \<^verbatim>\<open>"laser" not in json_data\<close> raises \<^verbatim>\<open>TypeError\<close>. The exception leaves
  the body of the \<^verbatim>\<open>try\<close> of \<^verbatim>\<open>generate_json\<close>, whose \<^verbatim>\<open>except Exception\<close> turns
  it into the default document and one issue. The witness is the reply \<^verbatim>\<open>5\<close>.
\<close>

theorem scalar_reply_raises_type_error:
  assumes "is_scalar v" and "loads (clean_text reply) = Decoded v"
  shows "validate_and_fix_json ops v = Inl TypeError
       \<and> extract_json ops loads reply = Inr v
       \<and> generate_json_try ops loads reply = Inl TypeError
       \<and> generate_json ops loads reply = (default_json ops, [ErrorOccurred TypeError])"
proof -
  have v: "validate_and_fix_json ops v = Inl TypeError" using assms(1) by (rule validate_scalar)
  have e: "extract_json ops loads reply = Inr v" using assms(2) by (simp add: extract_json_def)
  have t: "generate_json_try ops loads reply = Inl TypeError"
    by (simp add: generate_json_try_def e v err_bind_def)
  show ?thesis using v e t by (simp add: generate_json_def)
qed

theorem scalar_reply_raises_type_error_witness:
  "is_scalar (JInt 5 :: rat json)
   \<and> loads_table [(''5'', JInt 5)] (clean_text ''5'') = Decoded (JInt 5 :: rat json)
   \<and> validate_and_fix_json exact_ops (JInt 5) = Inl TypeError
   \<and> generate_json exact_ops (loads_table [(''5'', JInt 5)]) ''5''
       = (default_json exact_ops, [ErrorOccurred TypeError])"
proof -
  have a: "is_scalar (JInt 5 :: rat json)" by simp
  have b: "loads_table [(''5'', JInt 5)] (clean_text ''5'') = Decoded (JInt 5 :: rat json)"
    by (simp add: clean_5 loads_table_def)
  show ?thesis
    using a b scalar_reply_raises_type_error
      [where v = "JInt 5" and loads = "loads_table [(''5'', JInt 5)]" and reply = "''5''" and ops = exact_ops]
    by simp
qed

text \<open>
  Claim C2, as the code has it. For a reply with no opening brace or no closing brace
  that the decoder rejects, such as \<^verbatim>\<open>hello world\<close>, \<^verbatim>\<open>generate_json\<close> returns the
  default document and an empty list of issues: \<^verbatim>\<open>extract_json\<close> returns its default
  silently, and the default validates without a change.
\<close>

theorem no_braces_default_and_no_issue:
  assumes "CHR ''{'' \<notin> set reply \<or> CHR ''}'' \<notin> set reply"
      and "loads (clean_text reply) = JSONDecodeError"
  shows "generate_json ops loads reply = (default_json ops, [])"
proof -
  have nb: "CHR ''{'' \<notin> set (clean_text reply) \<or> CHR ''}'' \<notin> set (clean_text reply)"
    using assms(1) set_clean_text by blast
  have "extract_json ops loads reply = Inr (default_json ops)"
    using assms(2) by (simp add: extract_json_def brace_match_None [OF nb] last_resort_default [OF nb])
  then show ?thesis
    by (simp add: generate_json_def generate_json_try_def err_bind_def validate_default)
qed

theorem no_braces_default_and_no_issue_witness:
  "CHR ''{'' \<notin> set ''hello world''
   \<and> loads_table [] (clean_text ''hello world'') = (JSONDecodeError :: rat decoded)
   \<and> generate_json exact_ops (loads_table []) ''hello world'' = (default_json exact_ops, [])"
proof -
  have a: "CHR ''{'' \<notin> set ''hello world'' \<or> CHR ''}'' \<notin> set ''hello world''" by simp
  have b: "loads_table [] (clean_text ''hello world'') = (JSONDecodeError :: rat decoded)"
    by (simp add: loads_table_def)
  show ?thesis
    using a b no_braces_default_and_no_issue
      [where loads = "loads_table []" and reply = "''hello world''" and ops = exact_ops]
    by simp
qed

text \<open>
  Claim C2 as stated fails: on \<^verbatim>\<open>hello world\<close>, with a decoder that rejects it, the list
  of issues does not have exactly one entry.
\<close>

theorem hello_world_one_issue_counterexample:
  "length (snd (generate_json exact_ops (loads_table []) ''hello world'')) \<noteq> 1"
  by (simp add: generate_json_def generate_json_try_def extract_json_def clean_hello loads_table_def
      brace_match_def extract_last_resort_def py_find_def py_rfind_def err_bind_def validate_default)

lemma remove_alpha_dict:
  "remove_alpha cid (JDict ps) =
     Inr (JDict (AList.delete ''alpha_deg'' ps),
          if map_of ps ''alpha_deg'' = None then [] else [RemovedAlpha cid])"
  by (auto simp: remove_alpha_def err_bind_def map_of_eq_None_iff)

lemma fix_rotation_dict:
  "fix_rotation ops cid (JDict ps) =
     Inr (case map_of ps ''component_rotated'' of
            None \<Rightarrow> (JDict ps, [])
          | Some r \<Rightarrow>
              (case snap_rotation ops r of
                 None \<Rightarrow> (JDict ps, [])
               | Some c \<Rightarrow> (JDict (AList.update ''component_rotated'' (JInt c) ps),
                            [FixedRotation cid r c])))"
  by (auto simp: fix_rotation_def err_bind_def split: option.splits)

lemma convert_f_m_dict:
  "convert_f_m ops cid (JDict ps) =
     (case map_of ps ''f_m'' of
        None \<Rightarrow> Inr (JDict ps, [])
      | Some v \<Rightarrow>
          (case abs_times_million ops v of
             Inl e \<Rightarrow> Inl e
           | Inr u \<Rightarrow> Inr (JDict (AList.delete ''f_m'' (AList.update ''f_um'' u ps)),
                          [ConvertedFm cid])))"
  by (auto simp: convert_f_m_def err_bind_def update_conv' split: option.splits sum.splits)

lemma rename_type_dict:
  "rename_type cid (JDict ps) =
     Inr (case map_of ps ''type'' of
            None \<Rightarrow> (JDict ps, [])
          | Some t \<Rightarrow>
              if map_of ps ''lensType'' = None
              then (JDict (AList.delete ''type'' (AList.update ''lensType'' t ps)), [RenamedType cid])
              else (JDict ps, []))"
  by (auto simp: rename_type_def err_bind_def update_conv' split: option.splits sum.splits)

lemmas stage_dict = remove_alpha_dict fix_rotation_dict convert_f_m_dict rename_type_dict

lemma stage_non_dict:
  assumes "\<And>ps. p \<noteq> JDict ps"
  shows "remove_alpha cid p = Inr (p', is) \<Longrightarrow> p' = p \<and> is = []"
    and "fix_rotation ops cid p = Inr (p', is) \<Longrightarrow> p' = p \<and> is = []"
    and "convert_f_m ops cid p = Inr (p', is) \<Longrightarrow> p' = p \<and> is = []"
    and "rename_type cid p = Inr (p', is) \<Longrightarrow> p' = p \<and> is = []"
  using assms
  by (cases p; auto simp: remove_alpha_def fix_rotation_def convert_f_m_def rename_type_def err_bind_def
        split: if_splits)+

lemma fix_params_non_dict:
  assumes "\<And>ps. p \<noteq> JDict ps" and "fix_params ops ct cid p = Inr (p', is)"
  shows "p' = p \<and> is = []"
proof -
  from assms(2) obtain p1 i1 p2 i2 where
    s1: "remove_alpha cid p = Inr (p1, i1)" and s2: "fix_rotation ops cid p1 = Inr (p2, i2)"
    by (auto simp: fix_params_def err_bind_def split: sum.splits prod.splits)
  from stage_non_dict(1)[OF assms(1) s1] have e1: "p1 = p" "i1 = []" by auto
  from stage_non_dict(2)[OF assms(1) s2[unfolded e1]] have e2: "p2 = p" "i2 = []" by auto
  show ?thesis
  proof (cases "ct = JStr ''lens''")
    case False
    with assms(2) s1 s2 e1 e2 show ?thesis by (auto simp: fix_params_def err_bind_def)
  next
    case True
    with assms(2) s1 s2 e1 e2 obtain p3 i3 p4 i4 where
      s3: "convert_f_m ops cid p = Inr (p3, i3)" and s4: "rename_type cid p3 = Inr (p4, i4)"
      and r: "p' = p4" "is = i3 @ i4"
      by (auto simp: fix_params_def err_bind_def split: sum.splits prod.splits)
    from stage_non_dict(3)[OF assms(1) s3] have e3: "p3 = p" "i3 = []" by auto
    from stage_non_dict(4)[OF assms(1) s4[unfolded e3]] have e4: "p4 = p" "i4 = []" by auto
    show ?thesis using r e3 e4 by simp
  qed
qed

lemma min_by_in: "min_by lt key b xs \<in> set (b # xs)"
  by (induction xs arbitrary: b) (auto split: if_splits)

lemma hd_tl_valid_rotations: "hd valid_rotations # tl valid_rotations = valid_rotations"
  by (simp add: valid_rotations_def)

lemma closest_int_valid: "closest_int i \<in> set valid_rotations"
  unfolding closest_int_def Let_def
  using min_by_in [of "\<lambda>a b. a < b" "\<lambda>x. \<bar>x - i mod 360\<bar>" "hd valid_rotations" "tl valid_rotations"]
  by (simp only: hd_tl_valid_rotations)

lemma closest_float_valid: "closest_float ops x \<in> set valid_rotations"
  unfolding closest_float_def Let_def
  using min_by_in [of "f_lt ops" "\<lambda>y. f_dist ops y (f_mod ops x 360)" "hd valid_rotations" "tl valid_rotations"]
  by (simp only: hd_tl_valid_rotations)

lemma snap_rotation_valid: "snap_rotation ops r = Some c \<Longrightarrow> c \<in> set valid_rotations"
  using closest_int_valid closest_float_valid
  by (cases r) (auto split: if_splits)

lemma snap_rotation_fixed: "snap_rotation ops r = Some c \<Longrightarrow> snap_rotation ops (JInt c) = None"
  using snap_rotation_valid [of ops r c] by simp

lemma fix_params_fixed:
  assumes "params_fixed ops ct ps"
  shows "fix_params ops ct cid (JDict ps) = Inr (JDict ps, [])"
proof -
  have a: "map_of ps ''alpha_deg'' = None" using assms by (simp add: params_fixed_def)
  then have "''alpha_deg'' \<notin> fst ` set ps" by (simp add: map_of_eq_None_iff)
  then have 1: "remove_alpha cid (JDict ps) = Inr (JDict ps, [])"
    using a by (simp add: remove_alpha_dict)
  have 2: "fix_rotation ops cid (JDict ps) = Inr (JDict ps, [])"
    using assms by (auto simp: params_fixed_def fix_rotation_dict split: option.splits)
  show ?thesis
  proof (cases "ct = JStr ''lens''")
    case False
    then show ?thesis by (simp add: fix_params_def err_bind_def 1 2)
  next
    case True
    with assms have f: "map_of ps ''f_m'' = None"
      and t: "map_of ps ''type'' = None \<or> map_of ps ''lensType'' \<noteq> None"
      by (simp_all add: params_fixed_def)
    have 3: "convert_f_m ops cid (JDict ps) = Inr (JDict ps, [])"
      using f by (simp add: convert_f_m_dict)
    have 4: "rename_type cid (JDict ps) = Inr (JDict ps, [])"
      using t by (auto simp: rename_type_dict split: option.splits)
    show ?thesis using True by (simp add: fix_params_def err_bind_def 1 2 3 4)
  qed
qed

lemma after_rotation_other:
  "k \<noteq> ''component_rotated'' \<Longrightarrow> map_of (after_rotation ops ps) k = map_of ps k"
  by (simp add: after_rotation_def update_conv' split: option.splits)

lemma after_rotation_rot:
  "map_of (after_rotation ops ps) ''component_rotated'' =
     (case map_of ps ''component_rotated'' of
        None \<Rightarrow> None
      | Some r \<Rightarrow> Some (case snap_rotation ops r of None \<Rightarrow> r | Some c \<Rightarrow> JInt c))"
  by (simp add: after_rotation_def update_conv' split: option.splits)

lemma after_f_m_other:
  "k \<noteq> ''f_m'' \<Longrightarrow> k \<noteq> ''f_um'' \<Longrightarrow> map_of (after_f_m ops ps) k = map_of ps k"
  by (simp add: after_f_m_def update_conv' delete_conv' split: option.splits sum.splits)

lemma after_f_m_none: "map_of ps ''f_m'' = None \<Longrightarrow> after_f_m ops ps = ps"
  by (simp add: after_f_m_def)

lemma after_f_m_some:
  "map_of ps ''f_m'' = Some v \<Longrightarrow> abs_times_million ops v = Inr u \<Longrightarrow>
     map_of (after_f_m ops ps) ''f_um'' = Some u \<and> map_of (after_f_m ops ps) ''f_m'' = None"
  by (simp add: after_f_m_def update_conv' delete_conv')

lemma after_type_other:
  "k \<noteq> ''type'' \<Longrightarrow> k \<noteq> ''lensType'' \<Longrightarrow> map_of (after_type ps) k = map_of ps k"
  by (simp add: after_type_def update_conv' delete_conv' split: option.splits)

lemma after_type_fixed:
  "map_of (after_type ps) ''type'' = None \<or> map_of (after_type ps) ''lensType'' \<noteq> None"
  by (simp add: after_type_def update_conv' delete_conv' split: option.splits)

lemma after_type_lens: "map_of ps ''lensType'' = Some v \<Longrightarrow> after_type ps = ps"
  by (simp add: after_type_def split: option.splits)

lemma fix_rotation_res:
  "fix_rotation ops cid (JDict ps) = Inr (p', is) \<Longrightarrow> p' = JDict (after_rotation ops ps)"
  by (auto simp: fix_rotation_dict after_rotation_def split: option.splits)

lemma fix_rotation_issue:
  "fix_rotation ops cid (JDict ps) = Inr (p', is) \<Longrightarrow> map_of ps ''component_rotated'' = Some r
     \<Longrightarrow> snap_rotation ops r = Some c \<Longrightarrow> is = [FixedRotation cid r c]"
  by (simp add: fix_rotation_dict)

lemma convert_f_m_res:
  "convert_f_m ops cid (JDict ps) = Inr (p', is) \<Longrightarrow> p' = JDict (after_f_m ops ps)"
  by (auto simp: convert_f_m_dict after_f_m_def split: option.splits sum.splits)

lemma convert_f_m_issue:
  "convert_f_m ops cid (JDict ps) = Inr (p', is) \<Longrightarrow> map_of ps ''f_m'' = Some v
     \<Longrightarrow> (\<exists>u. abs_times_million ops v = Inr u) \<and> is = [ConvertedFm cid]"
  by (auto simp: convert_f_m_dict split: sum.splits)

lemma rename_type_res:
  "rename_type cid (JDict ps) = Inr (p', is) \<Longrightarrow> p' = JDict (after_type ps)"
  by (auto simp: rename_type_dict after_type_def split: option.splits if_splits)

lemma fix_rotation_total:
  "\<exists>i. fix_rotation ops cid (JDict ps) = Inr (JDict (after_rotation ops ps), i)"
  by (simp add: fix_rotation_dict after_rotation_def split: option.splits)

lemma rename_type_total:
  "\<exists>i. rename_type cid (JDict ps) = Inr (JDict (after_type ps), i)"
  by (auto simp: rename_type_dict after_type_def split: option.splits)

lemma fix_params_unfold:
  "fix_params ops ct cid (JDict ps) =
     err_bind (fix_rotation ops cid (JDict (AList.delete ''alpha_deg'' ps))) (\<lambda>(p2, i2).
       if ct = JStr ''lens'' then
         err_bind (convert_f_m ops cid p2) (\<lambda>(p3, i3).
         err_bind (rename_type cid p3) (\<lambda>(p4, i4).
           Inr (p4, (if map_of ps ''alpha_deg'' = None then [] else [RemovedAlpha cid]) @ i2 @ i3 @ i4)))
       else Inr (p2, (if map_of ps ''alpha_deg'' = None then [] else [RemovedAlpha cid]) @ i2))"
  by (simp add: fix_params_def remove_alpha_dict err_bind_def)

lemma fix_params_dict:
  assumes "fix_params ops ct cid (JDict ps) = Inr (p', is)"
  shows "p' = JDict (params_after ops ct ps)"
    and "\<exists>i1 i2 i34. is = i1 @ i2 @ i34
           \<and> fix_rotation ops cid (JDict (AList.delete ''alpha_deg'' ps)) = Inr (JDict (after_rotation ops (AList.delete ''alpha_deg'' ps)), i2)"
    and "ct = JStr ''lens'' \<longrightarrow>
           (\<exists>i12 i3 i4. is = i12 @ i3 @ i4
              \<and> convert_f_m ops cid (JDict (after_rotation ops (AList.delete ''alpha_deg'' ps)))
                  = Inr (JDict (after_f_m ops (after_rotation ops (AList.delete ''alpha_deg'' ps))), i3))"
proof -
  define ps1 where "ps1 = AList.delete ''alpha_deg'' ps"
  define ps2 where "ps2 = after_rotation ops ps1"
  define i1 where "i1 = (if map_of ps ''alpha_deg'' = None then [] else [RemovedAlpha cid :: 'a issue])"
  obtain i2 where s2: "fix_rotation ops cid (JDict ps1) = Inr (JDict ps2, i2)"
    unfolding ps2_def using fix_rotation_total by blast
  have u: "fix_params ops ct cid (JDict ps) =
             (if ct = JStr ''lens'' then
                err_bind (convert_f_m ops cid (JDict ps2)) (\<lambda>(p3, i3).
                err_bind (rename_type cid p3) (\<lambda>(p4, i4). Inr (p4, i1 @ i2 @ i3 @ i4)))
              else Inr (JDict ps2, i1 @ i2))"
    unfolding fix_params_unfold ps1_def [symmetric] s2 i1_def [symmetric]
    by (simp add: err_bind_def)
  have "p' = JDict (params_after ops ct ps)
        \<and> (\<exists>i1 i2 i34. is = i1 @ i2 @ i34 \<and> fix_rotation ops cid (JDict ps1) = Inr (JDict ps2, i2))
        \<and> (ct = JStr ''lens'' \<longrightarrow>
             (\<exists>i12 i3 i4. is = i12 @ i3 @ i4
                \<and> convert_f_m ops cid (JDict ps2) = Inr (JDict (after_f_m ops ps2), i3)))"
  proof (cases "ct = JStr ''lens''")
    case False
    with assms u have r: "p' = JDict ps2" "is = i1 @ i2 @ []" by simp_all
    have "p' = JDict (params_after ops ct ps)"
      using False r(1) by (simp add: params_after_def ps2_def ps1_def)
    with False r(2) s2 show ?thesis by blast
  next
    case True
    with assms u have a: "err_bind (convert_f_m ops cid (JDict ps2)) (\<lambda>(p3, i3).
                err_bind (rename_type cid p3) (\<lambda>(p4, i4). Inr (p4, i1 @ i2 @ i3 @ i4))) = Inr (p', is)"
      by simp
    then obtain p3 i3 where s3: "convert_f_m ops cid (JDict ps2) = Inr (p3, i3)"
      by (cases "convert_f_m ops cid (JDict ps2)") (auto simp: err_bind_def)
    have p3: "p3 = JDict (after_f_m ops ps2)" using s3 by (rule convert_f_m_res)
    obtain i4 where s4: "rename_type cid (JDict (after_f_m ops ps2)) = Inr (JDict (after_type (after_f_m ops ps2)), i4)"
      using rename_type_total by blast
    from a have r: "p' = JDict (after_type (after_f_m ops ps2))" "is = i1 @ i2 @ i3 @ i4"
      by (simp_all add: s3 p3 s4 err_bind_def)
    have pa: "p' = JDict (params_after ops ct ps)"
      using True r(1) by (simp add: params_after_def ps2_def ps1_def)
    have b: "\<exists>i1 i2 i34. is = i1 @ i2 @ i34 \<and> fix_rotation ops cid (JDict ps1) = Inr (JDict ps2, i2)"
      using r(2) s2 by blast
    have "is = (i1 @ i2) @ i3 @ i4" using r(2) by simp
    then have c: "\<exists>i12 i3 i4. is = i12 @ i3 @ i4
                \<and> convert_f_m ops cid (JDict ps2) = Inr (JDict (after_f_m ops ps2), i3)"
      using s3 p3 by blast
    from pa b c show ?thesis by blast
  qed
  then show "p' = JDict (params_after ops ct ps)"
    and "\<exists>i1 i2 i34. is = i1 @ i2 @ i34
           \<and> fix_rotation ops cid (JDict (AList.delete ''alpha_deg'' ps)) = Inr (JDict (after_rotation ops (AList.delete ''alpha_deg'' ps)), i2)"
    and "ct = JStr ''lens'' \<longrightarrow>
           (\<exists>i12 i3 i4. is = i12 @ i3 @ i4
              \<and> convert_f_m ops cid (JDict (after_rotation ops (AList.delete ''alpha_deg'' ps)))
                  = Inr (JDict (after_f_m ops (after_rotation ops (AList.delete ''alpha_deg'' ps))), i3))"
    unfolding ps2_def ps1_def by blast+
qed

lemma params_after_other:
  assumes "k \<noteq> ''alpha_deg''" "k \<noteq> ''component_rotated''" "k \<noteq> ''f_m''" "k \<noteq> ''f_um''"
    "k \<noteq> ''type''" "k \<noteq> ''lensType''"
  shows "map_of (params_after ops ct ps) k = map_of ps k"
  using assms
  by (simp add: params_after_def after_type_other after_f_m_other after_rotation_other)

lemma params_after_non_lens:
  assumes "ct \<noteq> JStr ''lens''" "k \<noteq> ''alpha_deg''" "k \<noteq> ''component_rotated''"
  shows "map_of (params_after ops ct ps) k = map_of ps k"
  using assms by (simp add: params_after_def after_rotation_other)

lemma params_after_alpha: "map_of (params_after ops ct ps) ''alpha_deg'' = None"
  by (simp add: params_after_def after_type_other after_f_m_other after_rotation_other delete_conv')

lemma params_after_rot:
  "map_of (params_after ops ct ps) ''component_rotated'' =
     (case map_of ps ''component_rotated'' of
        None \<Rightarrow> None
      | Some r \<Rightarrow> Some (case snap_rotation ops r of None \<Rightarrow> r | Some c \<Rightarrow> JInt c))"
  by (simp add: params_after_def after_type_other after_f_m_other after_rotation_rot)

lemma params_after_lensType:
  assumes "map_of ps ''lensType'' = Some v"
  shows "map_of (params_after ops ct ps) ''lensType'' = Some v"
proof (cases "ct = JStr ''lens''")
  case False
  with assms show ?thesis by (simp add: params_after_non_lens)
next
  case True
  let ?ps3 = "after_f_m ops (after_rotation ops (AList.delete ''alpha_deg'' ps))"
  have l: "map_of ?ps3 ''lensType'' = Some v"
    using assms by (simp add: after_f_m_other after_rotation_other)
  then have "after_type ?ps3 = ?ps3" by (rule after_type_lens)
  with l True show ?thesis by (simp add: params_after_def)
qed

lemma params_after_f_m:
  assumes "ct = JStr ''lens''" "map_of ps ''f_m'' = Some v" "abs_times_million ops v = Inr u"
  shows "map_of (params_after ops ct ps) ''f_um'' = Some u"
    and "map_of (params_after ops ct ps) ''f_m'' = None"
proof -
  let ?ps2 = "after_rotation ops (AList.delete ''alpha_deg'' ps)"
  have "map_of ?ps2 ''f_m'' = Some v" using assms(2) by (simp add: after_rotation_other)
  from after_f_m_some [OF this assms(3)]
  show "map_of (params_after ops ct ps) ''f_um'' = Some u"
    and "map_of (params_after ops ct ps) ''f_m'' = None"
    using assms(1) by (simp_all add: params_after_def after_type_other)
qed

lemma params_after_fixed:
  assumes "\<And>v. ct = JStr ''lens'' \<Longrightarrow> map_of ps ''f_m'' = Some v \<Longrightarrow>
             \<exists>u. abs_times_million ops v = Inr u"
  shows "params_fixed ops ct (params_after ops ct ps)"
proof -
  have rot: "case map_of (params_after ops ct ps) ''component_rotated'' of None \<Rightarrow> True
             | Some r \<Rightarrow> snap_rotation ops r = None"
  proof (cases "map_of ps ''component_rotated''")
    case None
    then show ?thesis by (simp add: params_after_rot)
  next
    case r: (Some r)
    show ?thesis
    proof (cases "snap_rotation ops r")
      case None
      with r show ?thesis by (simp add: params_after_rot)
    next
      case (Some c)
      with r snap_rotation_fixed [OF Some]
      show ?thesis by (simp add: params_after_rot)
    qed
  qed
  show ?thesis
  proof (cases "ct = JStr ''lens''")
    case False
    with rot show ?thesis by (simp add: params_fixed_def params_after_alpha)
  next
    case True
    let ?ps2 = "after_rotation ops (AList.delete ''alpha_deg'' ps)"
    have f2: "map_of ?ps2 ''f_m'' = map_of ps ''f_m''" by (simp add: after_rotation_other)
    have "map_of (after_f_m ops ?ps2) ''f_m'' = None"
    proof (cases "map_of ps ''f_m''")
      case None
      then show ?thesis by (simp add: after_f_m_none f2)
    next
      case (Some v)
      with assms True obtain u where "abs_times_million ops v = Inr u" by blast
      with Some f2 show ?thesis by (simp add: after_f_m_some)
    qed
    then have fm: "map_of (params_after ops ct ps) ''f_m'' = None"
      using True by (simp add: params_after_def after_type_other)
    have ty: "map_of (params_after ops ct ps) ''type'' = None
              \<or> map_of (params_after ops ct ps) ''lensType'' \<noteq> None"
      using True after_type_fixed [of "after_f_m ops ?ps2"] by (simp add: params_after_def)
    show ?thesis
      unfolding params_fixed_def using rot fm ty by (simp add: params_after_alpha)
  qed
qed

lemma fix_params_rot_issue:
  assumes "fix_params ops ct cid (JDict ps) = Inr (p', is)"
    and "map_of ps ''component_rotated'' = Some r" and "snap_rotation ops r = Some c"
  shows "FixedRotation cid r c \<in> set is"
proof -
  from fix_params_dict(2) [OF assms(1)] obtain i1 i2 i34 where
    i: "is = i1 @ i2 @ i34"
    and s: "fix_rotation ops cid (JDict (AList.delete ''alpha_deg'' ps))
              = Inr (JDict (after_rotation ops (AList.delete ''alpha_deg'' ps)), i2)"
    by blast
  have "map_of (AList.delete ''alpha_deg'' ps) ''component_rotated'' = Some r"
    using assms(2) by simp
  from fix_rotation_issue [OF s this assms(3)] i show ?thesis by simp
qed

lemma fix_params_f_m_issue:
  assumes "fix_params ops ct cid (JDict ps) = Inr (p', is)"
    and "ct = JStr ''lens''" and "map_of ps ''f_m'' = Some v"
  shows "\<exists>u. abs_times_million ops v = Inr u" and "ConvertedFm cid \<in> set is"
proof -
  from fix_params_dict(3) [OF assms(1)] assms(2) obtain i12 i3 i4 where
    i: "is = i12 @ i3 @ i4"
    and s: "convert_f_m ops cid (JDict (after_rotation ops (AList.delete ''alpha_deg'' ps)))
              = Inr (JDict (after_f_m ops (after_rotation ops (AList.delete ''alpha_deg'' ps))), i3)"
    by blast
  have "map_of (after_rotation ops (AList.delete ''alpha_deg'' ps)) ''f_m'' = Some v"
    using assms(3) by (simp add: after_rotation_other)
  from convert_f_m_issue [OF s this] i
  show "\<exists>u. abs_times_million ops v = Inr u" and "ConvertedFm cid \<in> set is" by simp_all
qed

lemma fix_params_idem:
  assumes "fix_params ops ct cid p = Inr (p', is)"
  shows "fix_params ops ct cid p' = Inr (p', [])"
proof (cases "\<exists>ps. p = JDict ps")
  case False
  then have n: "\<And>ps. p \<noteq> JDict ps" by blast
  from fix_params_non_dict [OF n assms] assms show ?thesis by simp
next
  case True
  then obtain ps where p: "p = JDict ps" by blast
  have p': "p' = JDict (params_after ops ct ps)" using assms unfolding p by (rule fix_params_dict(1))
  have "params_fixed ops ct (params_after ops ct ps)"
  proof (rule params_after_fixed)
    fix v
    assume "ct = JStr ''lens''" and "map_of ps ''f_m'' = Some v"
    then show "\<exists>u. abs_times_million ops v = Inr u"
      using fix_params_f_m_issue(1) [OF assms [unfolded p]] by blast
  qed
  then show ?thesis unfolding p' by (rule fix_params_fixed)
qed

end
